theory Spec2Isabelle
  imports Main "HOL-Library.Sublist" "HOL-Library.Multiset"
begin

section \<open>The Post model of the team-collaboration API (server/models/Post.ts)\<close>

text \<open>
  The module keeps posts in a document collection and exposes \<open>getList\<close>, \<open>add\<close>,
  \<open>edit\<close>, \<open>delete\<close> and \<open>checkPermission\<close>, plus the markdown renderer
  \<open>markdownToHtml\<close>. Every \<open>async\<close> method that writes is modelled as a function
  from the database before the call to a pair: the error it rejects with or the value
  it resolves to, and the database after the call. The methods that only read return
  the error or the value. The clock (\<open>new Date()\<close>) and the identifier the driver
  gives to a new document are arguments of the operations that use them, and so are
  the third-party libraries, gathered in one record.
\<close>


subsection \<open>Errors\<close>

text \<open>
  One constructor for each \<open>throw new Error(msg)\<close> of the module, named after its
  message, and one for each error that reaches the caller from below:
  \<open>TypeError_null\<close> is the \<open>TypeError\<close> of reading a property of \<open>null\<close>
  (\<open>post.discussionId\<close> when \<open>findById\<close> found nothing), \<open>ValidationError\<close> is the
  rejection of the schema's \<open>required\<close> validators, \<open>CastError\<close> is the driver's
  refusal of a string that is no \<open>ObjectId\<close>, and \<open>Render_error\<close> is whatever the
  markdown library throws while rendering.
\<close>

datatype error =
    Bad_data
  | Permission_denied
  | Discussion_not_found
  | Team_not_found
  | TypeError_null
  | ValidationError
  | CastError
  | Render_error

text \<open>
  The three error kinds of the specification, and the kind each error of the code
  belongs to in the specification's words: a missing required field is
  \<open>InvalidInput\<close>, an absent discussion, team or post is \<open>NotFound\<close> (the null
  dereference is to be treated as \<open>NotFound\<close>), and \<open>Permission denied\<close> is
  \<open>PermissionDenied\<close>. The specification has no name for a failed cast or a failed
  rendering: they are \<open>Unclassified\<close>.
\<close>

datatype error_kind = InvalidInput | NotFound | PermissionDenied | Unclassified

fun kind_of :: "error \<Rightarrow> error_kind" where
  "kind_of Bad_data = InvalidInput"
| "kind_of Permission_denied = PermissionDenied"
| "kind_of Discussion_not_found = NotFound"
| "kind_of Team_not_found = NotFound"
| "kind_of TypeError_null = NotFound"
| "kind_of ValidationError = InvalidInput"
| "kind_of CastError = Unclassified"
| "kind_of Render_error = Unclassified"

subsection \<open>Data model\<close>

type_synonym date = int

text \<open>
  The driver's identifier of a document, by its 24 hexadecimal digits in lower case.
  The schema declares no \<open>_id\<close>, so a post has one of these, and every string the
  callers pass as an id goes through the driver's cast before it is compared.
\<close>

datatype objectId = ObjectId string

text \<open>
  The schema of a post (\<open>mongoSchema\<close>), with the \<open>_id\<close> the driver assigns.
  \<open>lastUpdatedAt\<close> is absent until the first edit.
\<close>

record post =
  post_id :: objectId
  createdUserId :: string
  discussionId :: string
  content :: string
  htmlContent :: string
  isEdited :: bool
  createdAt :: date
  lastUpdatedAt :: "date option"

text \<open>
  Modelled from the spec: the \<open>Discussion\<close> and \<open>Team\<close> models are imported from
  \<open>./Discussion\<close> and \<open>./Team\<close>, which are not part of the sources at hand. Only
  the fields that \<open>checkPermission\<close> selects are kept: a discussion has \<open>teamId\<close>,
  \<open>memberIds\<close> and \<open>slug\<close>, a team has \<open>memberIds\<close> and \<open>slug\<close>.
\<close>

record discussion =
  teamId :: string
  d_memberIds :: "string list"
  d_slug :: string

record team =
  t_memberIds :: "string list"
  t_slug :: string

text \<open>
  The database: the post collection in insertion order, and the two collections
  that are only read here, as \<open>findById\<close> sees them.
\<close>

record db =
  posts :: "post list"
  discussions :: "string \<rightharpoonup> discussion"
  teams :: "string \<rightharpoonup> team"

subsection \<open>JavaScript helpers\<close>

text \<open>\<open>String.prototype.startsWith\<close>.\<close>

fun startsWith :: "string \<Rightarrow> string \<Rightarrow> bool" where
  "startsWith s [] = True"
| "startsWith [] (p # ps) = False"
| "startsWith (c # cs) (p # ps) = (c = p \<and> startsWith cs ps)"

text \<open>
  \<open>String.prototype.replace\<close> with a string pattern: the first occurrence is
  replaced, the rest of the text is kept. (The replacement used here has no \<open>$\<close>.)
\<close>

fun replace :: "string \<Rightarrow> string \<Rightarrow> string \<Rightarrow> string" where
  "replace [] pat rep = (if pat = [] then rep else [])"
| "replace (c # cs) pat rep =
     (if startsWith (c # cs) pat then rep @ drop (length pat) (c # cs)
      else c # replace cs pat rep)"

text \<open>\<open>Array.prototype.indexOf\<close>: the first index of the element, \<open>-1\<close> if absent.\<close>

fun indexOf :: "'a list \<Rightarrow> 'a \<Rightarrow> int" where
  "indexOf [] x = - 1"
| "indexOf (y # ys) x =
     (if y = x then 0
      else (let r = indexOf ys x in if r = - 1 then - 1 else r + 1))"

text \<open>Truthiness of an optional string: \<open>null\<close> and \<open>''\<close> are falsy.\<close>

fun truthy :: "string option \<Rightarrow> bool" where
  "truthy None = False"
| "truthy (Some s) = (s \<noteq> [])"

subsection \<open>The libraries\<close>

text \<open>
  \<open>marked\<close>, \<open>he\<close>, \<open>highlight.js\<close> and the database driver are third-party code,
  and parameters of the model. A library call that can throw returns an option,
  \<open>None\<close> when it throws.

  Of \<open>marked\<close> the model fixes the renderer interface the module relies on: the
  library parses the source and builds the output by concatenation, and for each link
  it calls the renderer's \<open>link\<close> method with the target, the title (or \<open>null\<close>)
  and the already rendered text of the link, and puts the string it gets back in the
  place of the link. A \<open>piece\<close> is a stretch of output that the library writes
  itself, or such a call.
\<close>

datatype piece = Html string | Link string "string option" string

type_synonym link_renderer = "string \<Rightarrow> string option \<Rightarrow> string \<Rightarrow> string"

type_synonym highlighter = "string \<Rightarrow> string option \<Rightarrow> string option"

fun emit :: "link_renderer \<Rightarrow> piece \<Rightarrow> string" where
  "emit link (Html h) = h"
| "emit link (Link href title text) = link href title text"

definition splice :: "link_renderer \<Rightarrow> piece list \<Rightarrow> string" where
  "splice link ps = concat (map (emit link) ps)"

text \<open>
  \<open>marked_lex\<close> is the parsing of \<open>marked\<close> under the \<open>breaks\<close> option and the
  \<open>highlight\<close> option, which it calls with the code and the language of each code
  block and whose exception it throws on; \<open>hljs_highlight\<close> throws on a language
  it does not know; \<open>castObjectId\<close> is the driver's cast of an id string, which
  throws on a string that is no \<open>ObjectId\<close>.
\<close>

record libs =
  marked_lex :: "bool \<Rightarrow> highlighter \<Rightarrow> string \<Rightarrow> piece list option"
  he_decode :: "string \<Rightarrow> string"
  hljs_highlightAuto :: "string \<Rightarrow> string"
  hljs_highlight :: "string \<Rightarrow> string \<Rightarrow> string option"
  castObjectId :: "string \<Rightarrow> objectId option"

text \<open>The options the module sets, with the one method of the renderer it overrides.\<close>

record marked_options =
  renderer :: link_renderer
  breaks :: bool
  highlight :: highlighter

definition marked :: "libs \<Rightarrow> marked_options \<Rightarrow> string \<Rightarrow> string option" where
  "marked L opts src =
     map_option (splice (renderer opts)) (marked_lex L (breaks opts) (highlight opts) src)"

subsection \<open>The markdown renderer\<close>

definition nl :: string where
  "nl = [CHR 0x0A]"

text \<open>
  The local constant \<open>t\<close> of the link callback: the title attribute when there is
  a title, nothing otherwise.
\<close>

definition title_attr :: "string option \<Rightarrow> string" where
  \<open>title_attr title = (if truthy title then '' title="'' @ the title @ ''"'' else [])\<close>

text \<open>
  \<open>renderer.link\<close>: the callback the markdown library calls with the target, the
  optional title and the already rendered text of every link. The template literal
  is reproduced with its line breaks and indentation.
\<close>

definition renderer_link :: link_renderer where
  \<open>renderer_link href title text =
     (let t = title_attr title in
      if startsWith text ''<code>@#''
      then replace text ''<code>@#'' ''<code>@'' @ '' ''
      else nl @
        ''      <a target="_blank" href="'' @ href @ ''" rel="noopener noreferrer"'' @ t @ ''>'' @ nl @
        ''        '' @ text @ nl @
        ''        <i class="material-icons" style="font-size: 16px; vertical-align: baseline">'' @ nl @
        ''          launch'' @ nl @
        ''        </i>'' @ nl @
        ''      </a>'' @ nl @
        ''    '')\<close>

text \<open>The \<open>highlight\<close> option: auto-detection unless a language is given.\<close>

definition highlight_option :: "libs \<Rightarrow> highlighter" where
  "highlight_option L code lang =
     (if \<not> truthy lang then Some (hljs_highlightAuto L code)
      else hljs_highlight L (the lang) code)"

text \<open>
  \<open>markdownToHtml(content)\<close>: \<open>None\<close> when \<open>marked\<close> throws, which it does when
  the \<open>highlight\<close> option throws.
\<close>

definition markdownToHtml :: "libs \<Rightarrow> string \<Rightarrow> string option" where
  "markdownToHtml L c =
     marked L
       \<lparr>renderer = renderer_link, breaks = True, highlight = highlight_option L\<rparr>
       (he_decode L c)"

subsection \<open>The post collection\<close>

text \<open>
  The schema's \<open>required\<close> validators. A string path passes only when it holds a
  non-empty string; \<open>createdAt\<close> is always supplied by the callers below.
\<close>

definition required_ok :: "post \<Rightarrow> bool" where
  "required_ok p =
     (createdUserId p \<noteq> [] \<and> discussionId p \<noteq> [] \<and> content p \<noteq> [] \<and> htmlContent p \<noteq> [])"

text \<open>
  \<open>Model.create\<close>: validate, then insert. \<open>isEdited\<close> takes its default
  \<open>false\<close>, \<open>lastUpdatedAt\<close> stays absent, and \<open>newId\<close> is the identifier the
  driver assigns.
\<close>

definition create ::
  "objectId \<Rightarrow> string \<Rightarrow> string \<Rightarrow> string \<Rightarrow> string \<Rightarrow> date \<Rightarrow> db \<Rightarrow> (error + post) \<times> db" where
  "create newId cuid did c html at s =
     (let p = \<lparr>post_id = newId, createdUserId = cuid, discussionId = did, content = c,
                htmlContent = html, isEdited = False, createdAt = at, lastUpdatedAt = None\<rparr>
      in if required_ok p then (Inr p, s\<lparr>posts := posts s @ [p]\<rparr>)
         else (Inl ValidationError, s))"

text \<open>
  \<open>Model.findById(id)\<close>: the id is cast first, and a string that is no \<open>ObjectId\<close>
  rejects the query; otherwise the result is the document with that \<open>_id\<close>, or
  \<open>null\<close>.
\<close>

definition findById :: "libs \<Rightarrow> string \<Rightarrow> db \<Rightarrow> error + post option" where
  "findById L pid s =
     (case castObjectId L pid of
        None \<Rightarrow> Inl CastError
      | Some oid \<Rightarrow> Inr (find (\<lambda>p. post_id p = oid) (posts s)))"

text \<open>
  The update document of \<open>edit\<close>:
  \<open>{content, htmlContent, isEdited: true, lastUpdatedAt: new Date()}\<close>.
\<close>

definition apply_update :: "string \<Rightarrow> string \<Rightarrow> date \<Rightarrow> post \<Rightarrow> post" where
  "apply_update c html now p =
     p\<lparr>content := c, htmlContent := html, isEdited := True, lastUpdatedAt := Some now\<rparr>"

text \<open>
  The collection under an update of one document: the first document with that
  \<open>_id\<close> is updated and returned as updated; when there is none the collection is
  unchanged and the result is \<open>null\<close>.
\<close>

fun update_first :: "objectId \<Rightarrow> (post \<Rightarrow> post) \<Rightarrow> post list \<Rightarrow> post option \<times> post list" where
  "update_first oid f [] = (None, [])"
| "update_first oid f (p # ps) =
     (if post_id p = oid then (Some (f p), f p # ps)
      else (case update_first oid f ps of (r, ps') \<Rightarrow> (r, p # ps')))"

text \<open>
  \<open>Model.findOneAndUpdate({_id: id}, update, {runValidators: true, new: true})\<close>:
  the id of the filter is cast, the \<open>required\<close> validators of the updated string
  paths (\<open>content\<close>, \<open>htmlContent\<close>) run, and then the update is made.
\<close>

definition findOneAndUpdate ::
  "libs \<Rightarrow> string \<Rightarrow> string \<Rightarrow> string \<Rightarrow> date \<Rightarrow> db \<Rightarrow> (error + post option) \<times> db" where
  "findOneAndUpdate L pid c html now s =
     (case castObjectId L pid of
        None \<Rightarrow> (Inl CastError, s)
      | Some oid \<Rightarrow>
          if c = [] \<or> html = [] then (Inl ValidationError, s)
          else (case update_first oid (apply_update c html now) (posts s) of
                  (r, ps') \<Rightarrow> (Inr r, s\<lparr>posts := ps'\<rparr>)))"

text \<open>\<open>Model.deleteOne({_id: id})\<close>: the first document with that \<open>_id\<close> goes.\<close>

fun remove_first :: "objectId \<Rightarrow> post list \<Rightarrow> post list" where
  "remove_first oid [] = []"
| "remove_first oid (p # ps) = (if post_id p = oid then ps else p # remove_first oid ps)"

definition deleteOne :: "libs \<Rightarrow> string \<Rightarrow> db \<Rightarrow> (error + unit) \<times> db" where
  "deleteOne L pid s =
     (case castObjectId L pid of
        None \<Rightarrow> (Inl CastError, s)
      | Some oid \<Rightarrow> (Inr (), s\<lparr>posts := remove_first oid (posts s)\<rparr>))"

subsection \<open>The operations of \<open>PostClass\<close>\<close>

text \<open>
  \<open>checkPermission({userId, discussionId, post = null})\<close>. The checks are in the
  order of the source: empty arguments, authorship when a post is given, the
  discussion and membership of it, then the team and membership of it, the last two
  under one condition and one message. It only reads the database.
\<close>

definition checkPermission ::
  "string \<Rightarrow> string \<Rightarrow> post option \<Rightarrow> db \<Rightarrow> error + (team \<times> discussion)" where
  "checkPermission userId did post s =
     (if userId = [] \<or> did = [] then Inl Bad_data
      else if (case post of None \<Rightarrow> False | Some p \<Rightarrow> createdUserId p \<noteq> userId)
      then Inl Permission_denied
      else (case discussions s did of
              None \<Rightarrow> Inl Discussion_not_found
            | Some d \<Rightarrow>
                if indexOf (d_memberIds d) userId = - 1 then Inl Permission_denied
                else (case teams s (teamId d) of
                        None \<Rightarrow> Inl Team_not_found
                      | Some t \<Rightarrow>
                          if indexOf (t_memberIds t) userId = - 1 then Inl Team_not_found
                          else Inr (t, d))))"

text \<open>\<open>getList({userId, discussionId})\<close>: \<open>find({discussionId}).sort({createdAt: 1})\<close>.\<close>

definition getList :: "string \<Rightarrow> string \<Rightarrow> db \<Rightarrow> error + post list" where
  "getList userId did s =
     (case checkPermission userId did None s of
        Inl e \<Rightarrow> Inl e
      | Inr _ \<Rightarrow> Inr (sort_key createdAt (filter (\<lambda>p. discussionId p = did) (posts s))))"

text \<open>
  \<open>add({content, userId, discussionId})\<close>. An exception of the renderer rejects the
  call before anything is stored.
\<close>

definition add ::
  "libs \<Rightarrow> date \<Rightarrow> objectId \<Rightarrow> string \<Rightarrow> string \<Rightarrow> string \<Rightarrow> db \<Rightarrow> (error + post) \<times> db" where
  "add L now newId c userId did s =
     (if c = [] then (Inl Bad_data, s)
      else (case markdownToHtml L c of
              None \<Rightarrow> (Inl Render_error, s)
            | Some html \<Rightarrow> create newId userId did c html now s))"

text \<open>
  \<open>edit({content, userId, id})\<close>. Reading \<open>post.discussionId\<close> of a \<open>null\<close> post
  throws before \<open>checkPermission\<close> is called.
\<close>

definition edit ::
  "libs \<Rightarrow> date \<Rightarrow> string \<Rightarrow> string \<Rightarrow> string \<Rightarrow> db \<Rightarrow> (error + post option) \<times> db" where
  "edit L now c userId pid s =
     (if c = [] \<or> pid = [] then (Inl Bad_data, s)
      else (case findById L pid s of
              Inl e \<Rightarrow> (Inl e, s)
            | Inr None \<Rightarrow> (Inl TypeError_null, s)
            | Inr (Some p) \<Rightarrow>
                (case checkPermission userId (discussionId p) (Some p) s of
                   Inl e \<Rightarrow> (Inl e, s)
                 | Inr _ \<Rightarrow>
                     (case markdownToHtml L c of
                        None \<Rightarrow> (Inl Render_error, s)
                      | Some html \<Rightarrow> findOneAndUpdate L pid c html now s))))"

text \<open>\<open>delete({userId, id})\<close>; it resolves to no value.\<close>

definition delete :: "libs \<Rightarrow> string \<Rightarrow> string \<Rightarrow> db \<Rightarrow> (error + unit) \<times> db" where
  "delete L userId pid s =
     (if pid = [] then (Inl Bad_data, s)
      else (case findById L pid s of
              Inl e \<Rightarrow> (Inl e, s)
            | Inr None \<Rightarrow> (Inl TypeError_null, s)
            | Inr (Some p) \<Rightarrow>
                (case checkPermission userId (discussionId p) (Some p) s of
                   Inl e \<Rightarrow> (Inl e, s)
                 | Inr _ \<Rightarrow> deleteOne L pid s)))"

subsection \<open>Example data\<close>

text \<open>
  Stand-ins for the libraries, for the examples only. The cast is the driver's: 24
  hexadecimal digits in either case, or any 12 bytes, and nothing else.
\<close>

definition is_hex :: "char \<Rightarrow> bool" where
  "is_hex ch = (ch \<in> set ''0123456789abcdefABCDEF'')"

definition lower_hex :: "char \<Rightarrow> char" where
  "lower_hex ch =
     (if ch = CHR ''A'' then CHR ''a'' else if ch = CHR ''B'' then CHR ''b''
      else if ch = CHR ''C'' then CHR ''c'' else if ch = CHR ''D'' then CHR ''d''
      else if ch = CHR ''E'' then CHR ''e'' else if ch = CHR ''F'' then CHR ''f''
      else ch)"

definition hex_byte :: "char \<Rightarrow> string" where
  "hex_byte ch =
     [''0123456789abcdef'' ! (of_char ch div 16), ''0123456789abcdef'' ! (of_char ch mod 16)]"

definition demo_cast :: "string \<Rightarrow> objectId option" where
  "demo_cast str =
     (if length str = 24 \<and> list_all is_hex str then Some (ObjectId (map lower_hex str))
      else if length str = 12 then Some (ObjectId (concat (map hex_byte str)))
      else None)"

text \<open>
  Three documents, and what \<open>marked\<close> makes of them: a paragraph with a link, a
  paragraph that is one link around the code span \<open>@#alice\<close>, and a code block
  fenced with a language that \<open>highlight.js\<close> does not know. Any other text stands
  for a plain paragraph.
\<close>

definition bt :: string where
  "bt = [CHR 0x60]"

definition link_md :: string where
  "link_md = ''check [link](http://x.com)''"

definition mention_md :: string where
  "mention_md = ''['' @ bt @ ''@#alice'' @ bt @ ''](/u/alice)''"

definition fence_md :: string where
  "fence_md = bt @ bt @ bt @ ''nosuchlang'' @ nl @ ''x'' @ nl @ bt @ bt @ bt"

definition demo_lex :: "bool \<Rightarrow> highlighter \<Rightarrow> string \<Rightarrow> piece list option" where
  \<open>demo_lex br hl src =
     (if src = link_md
      then Some [Html ''<p>check '', Link ''http://x.com'' None ''link'', Html (''</p>'' @ nl)]
      else if src = mention_md
      then Some [Html ''<p>'', Link ''/u/alice'' None ''<code>@#alice</code>'', Html (''</p>'' @ nl)]
      else if src = fence_md
      then (case hl ''x'' (Some ''nosuchlang'') of
              None \<Rightarrow> None
            | Some code \<Rightarrow>
                Some [Html (''<pre><code class="language-nosuchlang">'' @ code @ ''</code></pre>'' @ nl)])
      else Some [Html (''<p>'' @ src @ ''</p>'' @ nl)])\<close>

definition demo_libs :: libs where
  "demo_libs =
     \<lparr>marked_lex = demo_lex, he_decode = (\<lambda>src. src),
      hljs_highlightAuto = (\<lambda>code. code),
      hljs_highlight = (\<lambda>lang code. if lang = ''javascript'' then Some code else None),
      castObjectId = demo_cast\<rparr>"

text \<open>
  Discussions \<open>d1\<close> and \<open>d2\<close> belong to team \<open>t1\<close>, whose only member is Bob.
  Alice, Bob and Carol are members of \<open>d1\<close>, Bob alone of \<open>d2\<close>. Alice and Bob
  each wrote a post in \<open>d1\<close>, and a post of Alice's is filed under \<open>d2\<close>.
\<close>

definition alice_id :: string where
  "alice_id = ''5f1a00000000000000000001''"

definition bob_id :: string where
  "bob_id = ''5f1a00000000000000000002''"

definition other_id :: string where
  "other_id = ''5f1a00000000000000000003''"

definition alice_post :: post where
  "alice_post =
     \<lparr>post_id = ObjectId ''5f1a00000000000000000001'', createdUserId = ''alice'',
      discussionId = ''d1'', content = ''hello'', htmlContent = ''<p>hello</p>'' @ nl,
      isEdited = False, createdAt = 30, lastUpdatedAt = None\<rparr>"

definition bob_post :: post where
  "bob_post =
     \<lparr>post_id = ObjectId ''5f1a00000000000000000002'', createdUserId = ''bob'',
      discussionId = ''d1'', content = ''hi'', htmlContent = ''<p>hi</p>'' @ nl,
      isEdited = False, createdAt = 20, lastUpdatedAt = None\<rparr>"

definition other_post :: post where
  "other_post =
     \<lparr>post_id = ObjectId ''5f1a00000000000000000003'', createdUserId = ''alice'',
      discussionId = ''d2'', content = ''bye'', htmlContent = ''<p>bye</p>'' @ nl,
      isEdited = False, createdAt = 10, lastUpdatedAt = None\<rparr>"

definition demo_db :: db where
  "demo_db =
     \<lparr>posts = [alice_post, bob_post, other_post],
      discussions =
        [''d1'' \<mapsto> \<lparr>teamId = ''t1'', d_memberIds = [''alice'', ''bob'', ''carol''], d_slug = ''general''\<rparr>,
         ''d2'' \<mapsto> \<lparr>teamId = ''t1'', d_memberIds = [''bob''], d_slug = ''random''\<rparr>],
      teams = [''t1'' \<mapsto> \<lparr>t_memberIds = [''bob''], t_slug = ''team''\<rparr>]\<rparr>"

text \<open>The post that Carol adds to \<open>d1\<close> in the examples, and Bob's post once edited.\<close>

definition carol_post :: post where
  "carol_post =
     \<lparr>post_id = ObjectId ''5f1a00000000000000000004'', createdUserId = ''carol'',
      discussionId = ''d1'', content = ''yo'', htmlContent = ''<p>yo</p>'' @ nl,
      isEdited = False, createdAt = 40, lastUpdatedAt = None\<rparr>"

definition bob_edited :: post where
  "bob_edited =
     bob_post\<lparr>content := ''x'', htmlContent := ''<p>x</p>'' @ nl, isEdited := True,
              lastUpdatedAt := Some 40\<rparr>"

text \<open>A post by Mallory, who is in no team, under a discussion that does not exist.\<close>

definition mallory_post :: post where
  "mallory_post =
     \<lparr>post_id = ObjectId ''5f1a00000000000000000005'', createdUserId = ''mallory'',
      discussionId = ''d9'', content = ''hello'', htmlContent = ''<p>hello</p>'' @ nl,
      isEdited = False, createdAt = 50, lastUpdatedAt = None\<rparr>"

subsection \<open>The invariant of the data model\<close>

text \<open>Every stored post carries the rendering of its own content.\<close>

definition html_consistent :: "libs \<Rightarrow> db \<Rightarrow> bool" where
  "html_consistent L s =
     (\<forall>p\<in>set (posts s). markdownToHtml L (content p) = Some (htmlContent p))"

section \<open>Properties\<close>

subsection \<open>Helper lemmas\<close>



lemma indexOf_ge: "- 1 \<le> indexOf xs x"
  by (induction xs) (auto simp: Let_def)

lemma indexOf_absent: "indexOf xs x = - 1 \<longleftrightarrow> x \<notin> set xs"
proof (induction xs)
  case Nil
  show ?case by simp
next
  case (Cons y ys)
  have "- 1 \<le> indexOf ys x" by (rule indexOf_ge)
  with Cons show ?case by (auto simp: Let_def)
qed



lemma find_post_id:
  "find (\<lambda>p. post_id p = oid) ps = Some p \<Longrightarrow> post_id p = oid \<and> p \<in> set ps"
  by (induction ps) (auto split: if_splits)

lemma find_no_id:
  "oid \<notin> post_id ` set ps \<Longrightarrow> find (\<lambda>p. post_id p = oid) ps = None"
  by (induction ps) auto

lemma update_first_Some:
  "find (\<lambda>p. post_id p = oid) ps = Some p \<Longrightarrow>
   \<exists>ps1 ps2. ps = ps1 @ p # ps2 \<and> (\<forall>q\<in>set ps1. post_id q \<noteq> oid) \<and>
     update_first oid f ps = (Some (f p), ps1 @ f p # ps2)"
proof (induction ps)
  case Nil
  then show ?case by simp
next
  case (Cons a ps)
  show ?case
  proof (cases "post_id a = oid")
    case True
    with Cons.prems have "a = p" by simp
    with True have "a # ps = [] @ p # ps \<and> (\<forall>q\<in>set []. post_id q \<noteq> oid) \<and>
      update_first oid f (a # ps) = (Some (f p), [] @ f p # ps)" by simp
    then show ?thesis by blast
  next
    case False
    with Cons.prems have "find (\<lambda>p. post_id p = oid) ps = Some p" by simp
    from Cons.IH[OF this] obtain ps1 ps2 where
      h: "ps = ps1 @ p # ps2" "\<forall>q\<in>set ps1. post_id q \<noteq> oid"
         "update_first oid f ps = (Some (f p), ps1 @ f p # ps2)" by blast
    with False have "a # ps = (a # ps1) @ p # ps2 \<and> (\<forall>q\<in>set (a # ps1). post_id q \<noteq> oid) \<and>
      update_first oid f (a # ps) = (Some (f p), (a # ps1) @ f p # ps2)" by simp
    then show ?thesis by blast
  qed
qed

lemma findById_Some:
  "findById L pid s = Inr (Some p) \<Longrightarrow>
   castObjectId L pid = Some (post_id p) \<and> find (\<lambda>q. post_id q = post_id p) (posts s) = Some p"
  using find_post_id [of _ "posts s" p]
  by (auto simp: findById_def split: option.splits)

lemma findById_after_update:
  assumes "castObjectId L pid = Some oid"
    and "\<forall>q\<in>set ps1. post_id q \<noteq> oid" and "post_id p' = oid"
  shows "findById L pid (s\<lparr>posts := ps1 @ p' # ps2\<rparr>) = Inr (Some p')"
proof -
  from assms(2,3) have "find (\<lambda>q. post_id q = oid) (ps1 @ p' # ps2) = Some p'"
    by (induction ps1) auto
  with assms(1) show ?thesis
    by (simp add: findById_def)
qed

text \<open>Once the post is fetched, \<open>edit\<close> and \<open>delete\<close> go on with the permission check.\<close>

lemma edit_fetched:
  "c \<noteq> [] \<Longrightarrow> pid \<noteq> [] \<Longrightarrow> findById L pid s = Inr (Some p) \<Longrightarrow>
   edit L now c userId pid s =
     (case checkPermission userId (discussionId p) (Some p) s of
        Inl e \<Rightarrow> (Inl e, s)
      | Inr _ \<Rightarrow>
          (case markdownToHtml L c of
             None \<Rightarrow> (Inl Render_error, s)
           | Some html \<Rightarrow> findOneAndUpdate L pid c html now s))"
  by (simp add: edit_def)

lemma delete_fetched:
  "pid \<noteq> [] \<Longrightarrow> findById L pid s = Inr (Some p) \<Longrightarrow>
   delete L userId pid s =
     (case checkPermission userId (discussionId p) (Some p) s of
        Inl e \<Rightarrow> (Inl e, s)
      | Inr _ \<Rightarrow> deleteOne L pid s)"
  by (simp add: delete_def)

lemma checkPermission_not_author:
  "userId \<noteq> [] \<Longrightarrow> did \<noteq> [] \<Longrightarrow> createdUserId p \<noteq> userId \<Longrightarrow>
   checkPermission userId did (Some p) s = Inl Permission_denied"
  by (simp add: checkPermission_def)

lemma checkPermission_not_member:
  "userId \<noteq> [] \<Longrightarrow> did \<noteq> [] \<Longrightarrow> createdUserId p = userId \<Longrightarrow>
   discussions s did = Some d \<Longrightarrow> userId \<notin> set (d_memberIds d) \<Longrightarrow>
   checkPermission userId did (Some p) s = Inl Permission_denied"
  by (simp add: checkPermission_def indexOf_absent)

lemma checkPermission_not_in_team:
  "userId \<noteq> [] \<Longrightarrow> did \<noteq> [] \<Longrightarrow> createdUserId p = userId \<Longrightarrow>
   discussions s did = Some d \<Longrightarrow> userId \<in> set (d_memberIds d) \<Longrightarrow>
   teams s (teamId d) = Some t \<Longrightarrow> userId \<notin> set (t_memberIds t) \<Longrightarrow>
   checkPermission userId did (Some p) s = Inl Team_not_found"
  by (simp add: checkPermission_def indexOf_absent)

text \<open>What a successful \<open>edit\<close> has done.\<close>

lemma edit_Inr:
  assumes "edit L now c userId pid s = (Inr r, s')"
  shows "\<exists>p html ps1 ps2. c \<noteq> [] \<and> pid \<noteq> [] \<and> findById L pid s = Inr (Some p) \<and>
           castObjectId L pid = Some (post_id p) \<and> markdownToHtml L c = Some html \<and>
           posts s = ps1 @ p # ps2 \<and> (\<forall>q\<in>set ps1. post_id q \<noteq> post_id p) \<and>
           r = Some (apply_update c html now p) \<and>
           s' = s\<lparr>posts := ps1 @ apply_update c html now p # ps2\<rparr>"
proof -
  from assms have ne: "c \<noteq> []" "pid \<noteq> []"
    by (auto simp: edit_def split: if_splits)
  from assms ne obtain p where p: "findById L pid s = Inr (Some p)"
    by (auto simp: edit_def split: sum.splits option.splits)
  from assms ne p obtain html where html: "markdownToHtml L c = Some html"
    and upd: "findOneAndUpdate L pid c html now s = (Inr r, s')"
    by (auto simp: edit_fetched split: sum.splits option.splits)
  from findById_Some [OF p] have cast: "castObjectId L pid = Some (post_id p)"
    and fnd: "find (\<lambda>q. post_id q = post_id p) (posts s) = Some p"
    by simp_all
  from update_first_Some [OF fnd, of "apply_update c html now"]
  obtain ps1 ps2 where h: "posts s = ps1 @ p # ps2" "\<forall>q\<in>set ps1. post_id q \<noteq> post_id p"
    "update_first (post_id p) (apply_update c html now) (posts s) =
       (Some (apply_update c html now p), ps1 @ apply_update c html now p # ps2)"
    by blast
  from upd cast h(3) have "r = Some (apply_update c html now p)"
    and "s' = s\<lparr>posts := ps1 @ apply_update c html now p # ps2\<rparr>"
    by (auto simp: findOneAndUpdate_def split: if_splits)
  with ne p cast html h(1,2) show ?thesis by blast
qed

lemmas demo_defs =
  demo_db_def demo_libs_def demo_cast_def is_hex_def lower_hex_def
  alice_post_def bob_post_def other_post_def alice_id_def bob_id_def other_id_def

lemmas render_defs =
  markdownToHtml_def marked_def splice_def demo_lex_def highlight_option_def
  link_md_def mention_md_def fence_md_def bt_def nl_def

text \<open>The cast does not mind the case of the digits.\<close>

lemma findById_upper_case:
  "findById demo_libs ''5F1A00000000000000000001'' demo_db = Inr (Some alice_post)"
  by (simp add: findById_def demo_defs)

subsection \<open>Claims\<close>

text \<open>
  C5. A call to \<open>add\<close> with empty content is rejected with \<open>Bad data\<close>, an
  \<open>InvalidInput\<close> error, and leaves the database as it was: no record is created.
\<close>

theorem add_empty_content:
  "add L now newId [] userId did s = (Inl Bad_data, s) \<and> kind_of Bad_data = InvalidInput"
  by (simp add: add_def)






text \<open>
  C7. A successful \<open>getList\<close> returns exactly the posts of the collection whose
  \<open>discussionId\<close> is the given one, each as often as it is stored, in ascending order
  of \<open>createdAt\<close>.
\<close>

theorem getList_filtered_sorted:
  assumes "getList userId did s = Inr ps"
  shows "mset ps = mset (filter (\<lambda>p. discussionId p = did) (posts s)) \<and>
         sorted (map createdAt ps)"
proof -
  from assms have "ps = sort_key createdAt (filter (\<lambda>p. discussionId p = did) (posts s))"
    by (auto simp: getList_def split: sum.splits)
  then show ?thesis by simp
qed

theorem getList_filtered_sorted_witness:
  "getList ''bob'' ''d1'' demo_db = Inr [bob_post, alice_post] \<and>
   mset [bob_post, alice_post] = mset (filter (\<lambda>p. discussionId p = ''d1'') (posts demo_db)) \<and>
   sorted (map createdAt [bob_post, alice_post])"
proof -
  have h: "getList ''bob'' ''d1'' demo_db = Inr [bob_post, alice_post]"
    by (simp add: getList_def checkPermission_def demo_defs)
  from getList_filtered_sorted [OF h] h show ?thesis by simp
qed

text \<open>
  C8. A successful \<open>edit\<close> returns the stored post with \<open>isEdited = true\<close> and
  \<open>lastUpdatedAt\<close> set to the time of the call, and so does a further successful
  \<open>edit\<close> of the same post. It replaces the first post with the given id by a copy in
  which only \<open>content\<close>, \<open>htmlContent\<close>, \<open>isEdited\<close> and \<open>lastUpdatedAt\<close> are set
  anew: \<open>_id\<close>, \<open>createdUserId\<close>, \<open>discussionId\<close> and \<open>createdAt\<close> are as before,
  every other post is as before and in its place, and discussions and teams are
  untouched.
\<close>

theorem edit_frame:
  assumes "edit L now c userId pid s = (Inr r, s')"
  shows "\<exists>p p' ps1 ps2.
           posts s = ps1 @ p # ps2 \<and> posts s' = ps1 @ p' # ps2 \<and>
           castObjectId L pid = Some (post_id p) \<and> post_id p \<notin> post_id ` set ps1 \<and>
           r = Some p' \<and>
           isEdited p' \<and> lastUpdatedAt p' = Some now \<and>
           content p' = c \<and> markdownToHtml L c = Some (htmlContent p') \<and>
           post_id p' = post_id p \<and> createdUserId p' = createdUserId p \<and>
           discussionId p' = discussionId p \<and> createdAt p' = createdAt p \<and>
           discussions s' = discussions s \<and> teams s' = teams s \<and>
           (\<forall>now2 c2 r2 s2. edit L now2 c2 userId pid s' = (Inr r2, s2) \<longrightarrow>
              (\<exists>p2. r2 = Some p2 \<and> isEdited p2 \<and> lastUpdatedAt p2 = Some now2 \<and>
                    post_id p2 = post_id p \<and> createdUserId p2 = createdUserId p \<and>
                    discussionId p2 = discussionId p \<and> createdAt p2 = createdAt p))"
proof -
  from edit_Inr [OF assms] obtain p html ps1 ps2 where
    h: "castObjectId L pid = Some (post_id p)" "markdownToHtml L c = Some html"
       "posts s = ps1 @ p # ps2" "\<forall>q\<in>set ps1. post_id q \<noteq> post_id p"
       "r = Some (apply_update c html now p)"
       "s' = s\<lparr>posts := ps1 @ apply_update c html now p # ps2\<rparr>"
    by blast
  let ?p' = "apply_update c html now p"
  from h(4) have first: "post_id p \<notin> post_id ` set ps1" by auto
  have again: "\<exists>p2. r2 = Some p2 \<and> isEdited p2 \<and> lastUpdatedAt p2 = Some now2 \<and>
                 post_id p2 = post_id p \<and> createdUserId p2 = createdUserId p \<and>
                 discussionId p2 = discussionId p \<and> createdAt p2 = createdAt p"
    if e2: "edit L now2 c2 userId pid s' = (Inr r2, s2)" for now2 c2 r2 s2
  proof -
    from edit_Inr [OF e2] obtain q html2 where
      q: "findById L pid s' = Inr (Some q)" "r2 = Some (apply_update c2 html2 now2 q)"
      by blast
    have "post_id ?p' = post_id p" by (simp add: apply_update_def)
    from findById_after_update [OF h(1,4) this] h(6) have "findById L pid s' = Inr (Some ?p')"
      by simp
    with q(1) have "q = ?p'" by simp
    with q(2) show ?thesis by (simp add: apply_update_def)
  qed
  have now: "posts s = ps1 @ p # ps2 \<and> posts s' = ps1 @ ?p' # ps2 \<and>
      castObjectId L pid = Some (post_id p) \<and> post_id p \<notin> post_id ` set ps1 \<and>
      r = Some ?p' \<and>
      isEdited ?p' \<and> lastUpdatedAt ?p' = Some now \<and>
      content ?p' = c \<and> markdownToHtml L c = Some (htmlContent ?p') \<and>
      post_id ?p' = post_id p \<and> createdUserId ?p' = createdUserId p \<and>
      discussionId ?p' = discussionId p \<and> createdAt ?p' = createdAt p \<and>
      discussions s' = discussions s \<and> teams s' = teams s"
    using h(1,2,3,5,6) first by (simp add: apply_update_def)
  from now again show ?thesis by blast
qed

theorem edit_frame_witness:
  "edit demo_libs 40 ''x'' ''bob'' bob_id demo_db =
     (Inr (Some bob_edited), demo_db\<lparr>posts := [alice_post, bob_edited, other_post]\<rparr>) \<and>
   (\<exists>p'. Some bob_edited = Some p' \<and> isEdited p' \<and> lastUpdatedAt p' = Some 40)"
proof -
  let ?s = "demo_db\<lparr>posts := [alice_post, bob_edited, other_post]\<rparr>"
  have h: "edit demo_libs 40 ''x'' ''bob'' bob_id demo_db = (Inr (Some bob_edited), ?s)"
    by (simp add: edit_def findById_def checkPermission_def findOneAndUpdate_def
          render_defs apply_update_def bob_edited_def demo_defs)
  from edit_frame [OF h] obtain p' where
    "Some bob_edited = Some p' \<and> isEdited p' \<and> lastUpdatedAt p' = Some 40"
    by (elim exE conjE) simp
  then have "\<exists>p'. Some bob_edited = Some p' \<and> isEdited p' \<and> lastUpdatedAt p' = Some 40"
    by (rule exI)
  with h show ?thesis by (rule conjI)
qed

text \<open>
  C2. The post that a successful \<open>add\<close> or \<open>edit\<close> returns is in the collection and
  its \<open>htmlContent\<close> is the rendering of its \<open>content\<close>, which is the content given;
  and when that holds of every post before the call, it holds of every post after it.
\<close>

theorem html_is_render:
  "(add L now newId c userId did s = (Inr p, s') \<longrightarrow>
      p \<in> set (posts s') \<and> content p = c \<and> markdownToHtml L (content p) = Some (htmlContent p) \<and>
      (html_consistent L s \<longrightarrow> html_consistent L s')) \<and>
   (edit L now c userId pid s = (Inr r, s'') \<longrightarrow>
      (\<exists>q. r = Some q \<and> q \<in> set (posts s'') \<and> content q = c \<and>
           markdownToHtml L (content q) = Some (htmlContent q)) \<and>
      (html_consistent L s \<longrightarrow> html_consistent L s''))"
proof (intro conjI impI)
  assume a: "add L now newId c userId did s = (Inr p, s')"
  then have ne: "c \<noteq> []"
    by (auto simp: add_def split: if_splits)
  with a obtain html where html: "markdownToHtml L c = Some html"
    and cr: "create newId userId did c html now s = (Inr p, s')"
    by (auto simp: add_def split: option.splits)
  from cr have p: "content p = c \<and> htmlContent p = html \<and> s' = s\<lparr>posts := posts s @ [p]\<rparr>"
    by (auto simp: create_def Let_def split: if_splits)
  from p show "p \<in> set (posts s')" by simp
  from p show "content p = c" by simp
  from p html show "markdownToHtml L (content p) = Some (htmlContent p)" by simp
  assume "html_consistent L s"
  with p html show "html_consistent L s'" by (auto simp: html_consistent_def)
next
  assume e: "edit L now c userId pid s = (Inr r, s'')"
  from edit_Inr [OF e] obtain p html ps1 ps2 where
    h: "markdownToHtml L c = Some html" "posts s = ps1 @ p # ps2"
       "r = Some (apply_update c html now p)"
       "s'' = s\<lparr>posts := ps1 @ apply_update c html now p # ps2\<rparr>"
    by blast
  let ?q = "apply_update c html now p"
  from h(1) have q: "content ?q = c \<and> markdownToHtml L (content ?q) = Some (htmlContent ?q)"
    by (simp add: apply_update_def)
  from h(3,4) have "r = Some ?q \<and> ?q \<in> set (posts s'')" by simp
  with q have "r = Some ?q \<and> ?q \<in> set (posts s'') \<and> content ?q = c \<and>
      markdownToHtml L (content ?q) = Some (htmlContent ?q)"
    by blast
  then show "\<exists>q. r = Some q \<and> q \<in> set (posts s'') \<and> content q = c \<and>
      markdownToHtml L (content q) = Some (htmlContent q)"
    by (rule exI)
  assume "html_consistent L s"
  with h(2,4) q show "html_consistent L s''" by (auto simp: html_consistent_def)
qed

theorem html_is_render_witness:
  "html_consistent demo_libs demo_db \<and>
   add demo_libs 40 (ObjectId ''5f1a00000000000000000004'') ''yo'' ''carol'' ''d1'' demo_db =
     (Inr carol_post, demo_db\<lparr>posts := [alice_post, bob_post, other_post, carol_post]\<rparr>) \<and>
   html_consistent demo_libs (demo_db\<lparr>posts := [alice_post, bob_post, other_post, carol_post]\<rparr>) \<and>
   edit demo_libs 40 ''x'' ''bob'' bob_id demo_db =
     (Inr (Some bob_edited), demo_db\<lparr>posts := [alice_post, bob_edited, other_post]\<rparr>) \<and>
   html_consistent demo_libs (demo_db\<lparr>posts := [alice_post, bob_edited, other_post]\<rparr>)"
proof -
  let ?s1 = "demo_db\<lparr>posts := [alice_post, bob_post, other_post, carol_post]\<rparr>"
  let ?s2 = "demo_db\<lparr>posts := [alice_post, bob_edited, other_post]\<rparr>"
  have inv: "html_consistent demo_libs demo_db"
    by (simp add: html_consistent_def render_defs demo_defs)
  have a: "add demo_libs 40 (ObjectId ''5f1a00000000000000000004'') ''yo'' ''carol'' ''d1'' demo_db =
      (Inr carol_post, ?s1)"
    by (simp add: add_def create_def Let_def required_ok_def render_defs carol_post_def demo_defs)
  have e: "edit demo_libs 40 ''x'' ''bob'' bob_id demo_db = (Inr (Some bob_edited), ?s2)"
    by (simp add: edit_def findById_def checkPermission_def findOneAndUpdate_def
          render_defs apply_update_def bob_edited_def demo_defs)
  from html_is_render [where L = demo_libs and now = 40
      and newId = "ObjectId ''5f1a00000000000000000004''" and c = "''yo''" and userId = "''carol''"
      and did = "''d1''" and s = demo_db and p = carol_post and s' = ?s1] a inv
  have i1: "html_consistent demo_libs ?s1" by blast
  from html_is_render [where L = demo_libs and now = 40 and c = "''x''" and userId = "''bob''"
      and s = demo_db and pid = bob_id and r = "Some bob_edited" and s'' = ?s2] e inv
  have i2: "html_consistent demo_libs ?s2" by blast
  from inv a i1 e i2 show ?thesis by blast
qed

text \<open>
  C3, as the code has it. A call to \<open>add\<close> with non-empty content makes no
  permission check: its outcome is the same whatever the discussions and teams are,
  and it never fails with \<open>PermissionDenied\<close> or \<open>NotFound\<close>. It creates the post
  whenever the renderer returns non-empty HTML and \<open>userId\<close> and \<open>discussionId\<close>
  are non-empty. When the renderer throws, the call fails with that exception; when
  the renderer returns but one of the three is empty, the schema's \<open>required\<close>
  validators reject the record. Nothing is stored in either case.
\<close>

theorem add_no_permission_check:
  assumes "c \<noteq> []"
  shows "fst (add L now newId c userId did (s\<lparr>discussions := D, teams := T\<rparr>)) =
           fst (add L now newId c userId did s) \<and>
         (\<forall>e. fst (add L now newId c userId did s) = Inl e \<longrightarrow>
            (e = Render_error \<or> e = ValidationError) \<and>
            kind_of e \<noteq> PermissionDenied \<and> kind_of e \<noteq> NotFound \<and>
            snd (add L now newId c userId did s) = s) \<and>
         (markdownToHtml L c = None \<longrightarrow>
            add L now newId c userId did s = (Inl Render_error, s)) \<and>
         (\<forall>html. markdownToHtml L c = Some html \<and> (userId = [] \<or> did = [] \<or> html = []) \<longrightarrow>
            add L now newId c userId did s = (Inl ValidationError, s)) \<and>
         (\<forall>html. markdownToHtml L c = Some html \<and> userId \<noteq> [] \<and> did \<noteq> [] \<and> html \<noteq> [] \<longrightarrow>
            (\<exists>p. add L now newId c userId did s = (Inr p, s\<lparr>posts := posts s @ [p]\<rparr>) \<and>
                 post_id p = newId \<and> createdUserId p = userId \<and> discussionId p = did \<and>
                 content p = c \<and> htmlContent p = html \<and> \<not> isEdited p \<and>
                 createdAt p = now \<and> lastUpdatedAt p = None))"
proof (cases "markdownToHtml L c")
  case None
  with assms show ?thesis by (simp add: add_def)
next
  case (Some html)
  with assms show ?thesis
    by (auto simp: add_def create_def Let_def required_ok_def)
qed

theorem add_no_permission_check_witness:
  "add demo_libs 50 (ObjectId ''5f1a00000000000000000005'') ''hello'' ''mallory'' ''d9'' demo_db =
     (Inr mallory_post, demo_db\<lparr>posts := posts demo_db @ [mallory_post]\<rparr>) \<and>
   discussions demo_db ''d9'' = None \<and> ''mallory'' \<notin> set [''bob'']"
proof -
  have h: "''hello'' \<noteq> []" by simp
  have n: "markdownToHtml demo_libs ''hello'' = Some (''<p>hello</p>'' @ nl) \<and>
           ''mallory'' \<noteq> [] \<and> ''d9'' \<noteq> [] \<and> ''<p>hello</p>'' @ nl \<noteq> []"
    by (simp add: render_defs demo_libs_def)
  from add_no_permission_check [OF h, where L = demo_libs and now = 50
      and newId = "ObjectId ''5f1a00000000000000000005''" and userId = "''mallory''"
      and did = "''d9''" and s = demo_db and D = "discussions demo_db" and T = "teams demo_db"] n
  obtain p where p:
    "add demo_libs 50 (ObjectId ''5f1a00000000000000000005'') ''hello'' ''mallory'' ''d9'' demo_db =
       (Inr p, demo_db\<lparr>posts := posts demo_db @ [p]\<rparr>)"
    "post_id p = ObjectId ''5f1a00000000000000000005''" "createdUserId p = ''mallory''"
    "discussionId p = ''d9''" "content p = ''hello''"
    "htmlContent p = ''<p>hello</p>'' @ nl" "\<not> isEdited p"
    "createdAt p = 50" "lastUpdatedAt p = None"
    by blast
  from p(2-9) have "p = mallory_post"
    by (cases p) (simp add: mallory_post_def)
  with p(1) show ?thesis by (simp add: demo_db_def)
qed

text \<open>
  With an empty \<open>userId\<close> the content is non-empty and yet no post is created; nor
  is one when the content is a code block in a language the highlighter does not
  know, for the renderer throws.
\<close>

theorem add_creates_counterexample:
  "add demo_libs 50 (ObjectId ''5f1a00000000000000000005'') ''hello'' [] ''d1'' demo_db =
     (Inl ValidationError, demo_db) \<and>
   fence_md \<noteq> [] \<and>
   add demo_libs 50 (ObjectId ''5f1a00000000000000000005'') fence_md ''bob'' ''d1'' demo_db =
     (Inl Render_error, demo_db)"
  by (simp add: add_def create_def Let_def required_ok_def render_defs demo_libs_def)

text \<open>
  C6, as the code has it. Take a call to \<open>delete\<close>, or to \<open>edit\<close> with non-empty
  content, with a non-empty id. When the driver casts the id to an \<open>ObjectId\<close> that
  no stored post has, the call fails on reading \<open>post.discussionId\<close> of the \<open>null\<close>
  post, an error of kind \<open>NotFound\<close>; when the driver cannot cast the id, the call
  fails with its \<open>CastError\<close>. In both cases this is so whoever the caller is: the
  permission check is not reached, and the database is as before.
\<close>

theorem edit_delete_missing_post:
  assumes "pid \<noteq> []"
  shows "(\<forall>oid. castObjectId L pid = Some oid \<and> oid \<notin> post_id ` set (posts s) \<longrightarrow>
            (c \<noteq> [] \<longrightarrow> edit L now c userId pid s = (Inl TypeError_null, s)) \<and>
            delete L userId pid s = (Inl TypeError_null, s)) \<and>
         (castObjectId L pid = None \<longrightarrow>
            (c \<noteq> [] \<longrightarrow> edit L now c userId pid s = (Inl CastError, s)) \<and>
            delete L userId pid s = (Inl CastError, s)) \<and>
         kind_of TypeError_null = NotFound"
  using assms by (auto simp: edit_def delete_def findById_def find_no_id)

theorem edit_delete_missing_post_witness:
  "castObjectId demo_libs ''5f1a000000000000000000ff'' = Some (ObjectId ''5f1a000000000000000000ff'') \<and>
   ObjectId ''5f1a000000000000000000ff'' \<notin> post_id ` set (posts demo_db) \<and>
   edit demo_libs 50 ''x'' ''bob'' ''5f1a000000000000000000ff'' demo_db = (Inl TypeError_null, demo_db) \<and>
   delete demo_libs ''bob'' ''5f1a000000000000000000ff'' demo_db = (Inl TypeError_null, demo_db) \<and>
   castObjectId demo_libs ''abc'' = None \<and>
   edit demo_libs 50 ''x'' ''bob'' ''abc'' demo_db = (Inl CastError, demo_db) \<and>
   delete demo_libs ''bob'' ''abc'' demo_db = (Inl CastError, demo_db)"
proof -
  have n: "''5f1a000000000000000000ff'' \<noteq> []" and m: "''abc'' \<noteq> []" and x: "''x'' \<noteq> []"
    by simp_all
  have f: "castObjectId demo_libs ''5f1a000000000000000000ff'' = Some (ObjectId ''5f1a000000000000000000ff'')"
    and g: "ObjectId ''5f1a000000000000000000ff'' \<notin> post_id ` set (posts demo_db)"
    and a: "castObjectId demo_libs ''abc'' = None"
    by (simp_all add: demo_defs)
  from edit_delete_missing_post [OF n, where c = "''x''" and L = demo_libs and now = 50
      and userId = "''bob''" and s = demo_db] f g x
  have 1: "edit demo_libs 50 ''x'' ''bob'' ''5f1a000000000000000000ff'' demo_db = (Inl TypeError_null, demo_db) \<and>
           delete demo_libs ''bob'' ''5f1a000000000000000000ff'' demo_db = (Inl TypeError_null, demo_db)"
    by blast
  from edit_delete_missing_post [OF m, where c = "''x''" and L = demo_libs and now = 50
      and userId = "''bob''" and s = demo_db] a x
  have 2: "edit demo_libs 50 ''x'' ''bob'' ''abc'' demo_db = (Inl CastError, demo_db) \<and>
           delete demo_libs ''bob'' ''abc'' demo_db = (Inl CastError, demo_db)"
    by blast
  from f g a 1 2 show ?thesis by blast
qed

text \<open>
  An \<open>edit\<close> with empty content is turned down as \<open>Bad data\<close> before the post is
  looked for, also when the id is non-empty and matches no post; and a \<open>delete\<close> with
  the id \<open>abc\<close>, which is non-empty and matches no post, fails in the cast, not on
  the \<open>null\<close> post.
\<close>

theorem edit_missing_post_counterexample:
  "findById demo_libs ''5f1a000000000000000000ff'' demo_db = Inr None \<and>
   edit demo_libs 50 [] ''bob'' ''5f1a000000000000000000ff'' demo_db = (Inl Bad_data, demo_db) \<and>
   kind_of Bad_data = InvalidInput \<and>
   delete demo_libs ''bob'' ''abc'' demo_db = (Inl CastError, demo_db) \<and>
   kind_of CastError = Unclassified"
  by (simp add: edit_def delete_def findById_def demo_defs)

text \<open>
  C10, as the code has it. In \<open>checkPermission\<close> the authorship check comes before
  any lookup: when the fetched post exists, has a non-empty \<open>discussionId\<close> and was
  written by someone other than the non-empty \<open>userId\<close>, \<open>delete\<close>, and \<open>edit\<close>
  with non-empty content, fail with \<open>Permission denied\<close> whatever the discussions and
  teams of the database are, also when there are none, and change nothing.
\<close>

theorem ownership_checked_first:
  assumes "findById L pid s = Inr (Some p)" and "createdUserId p \<noteq> userId"
    and "userId \<noteq> []" and "discussionId p \<noteq> []" and "pid \<noteq> []"
  shows "(c \<noteq> [] \<longrightarrow>
            edit L now c userId pid (s\<lparr>discussions := D, teams := T\<rparr>) =
              (Inl Permission_denied, s\<lparr>discussions := D, teams := T\<rparr>)) \<and>
         delete L userId pid (s\<lparr>discussions := D, teams := T\<rparr>) =
           (Inl Permission_denied, s\<lparr>discussions := D, teams := T\<rparr>) \<and>
         kind_of Permission_denied = PermissionDenied"
proof -
  let ?s = "s\<lparr>discussions := D, teams := T\<rparr>"
  from assms(1) have f: "findById L pid ?s = Inr (Some p)"
    by (simp add: findById_def split: option.splits)
  from assms(2-4) have cp: "checkPermission userId (discussionId p) (Some p) ?s = Inl Permission_denied"
    by (simp add: checkPermission_not_author)
  from f cp assms(5) show ?thesis
    by (simp add: edit_fetched delete_fetched)
qed

theorem ownership_checked_first_witness:
  "findById demo_libs alice_id demo_db = Inr (Some alice_post) \<and>
   createdUserId alice_post \<noteq> ''bob'' \<and>
   edit demo_libs 50 ''x'' ''bob'' alice_id
       (demo_db\<lparr>discussions := Map.empty, teams := Map.empty\<rparr>) =
     (Inl Permission_denied, demo_db\<lparr>discussions := Map.empty, teams := Map.empty\<rparr>) \<and>
   delete demo_libs ''bob'' alice_id (demo_db\<lparr>discussions := Map.empty, teams := Map.empty\<rparr>) =
     (Inl Permission_denied, demo_db\<lparr>discussions := Map.empty, teams := Map.empty\<rparr>)"
proof -
  have f: "findById demo_libs alice_id demo_db = Inr (Some alice_post)"
    by (simp add: findById_def demo_defs)
  have a: "createdUserId alice_post \<noteq> ''bob''" by (simp add: alice_post_def)
  have u: "''bob'' \<noteq> []" by simp
  have d: "discussionId alice_post \<noteq> []" by (simp add: alice_post_def)
  have i: "alice_id \<noteq> []" by (simp add: alice_id_def)
  from ownership_checked_first [OF f a u d i, where c = "''x''" and now = 50
      and D = Map.empty and T = Map.empty] f a
  show ?thesis by simp
qed

text \<open>
  With an empty \<open>userId\<close>, which differs from the author of Alice's post, the failure
  is \<open>Bad data\<close>: the check of the arguments comes before the authorship check.
\<close>

theorem ownership_checked_first_counterexample:
  "findById demo_libs alice_id demo_db = Inr (Some alice_post) \<and>
   createdUserId alice_post \<noteq> [] \<and>
   delete demo_libs [] alice_id demo_db = (Inl Bad_data, demo_db) \<and>
   kind_of Bad_data = InvalidInput"
  by (simp add: delete_def findById_def checkPermission_def demo_defs)

text \<open>
  C1, as the code has it. Take a call to \<open>delete\<close>, or to \<open>edit\<close> with non-empty
  content, by a non-empty \<open>userId\<close> on a stored post with a non-empty
  \<open>discussionId\<close>. When the caller is not the author of the post, or is the author but
  not a member of the post's discussion, the call fails with \<open>Permission denied\<close>.
  When the caller is the author and a member of the discussion but not in
  \<open>team.memberIds\<close>, the call fails with \<open>Team not found\<close>, an error of kind
  \<open>NotFound\<close>. The database is unchanged in each case.
\<close>

theorem edit_delete_refused:
  assumes "findById L pid s = Inr (Some p)" and "pid \<noteq> []" and "c \<noteq> []"
    and "userId \<noteq> []" and "discussionId p \<noteq> []"
  shows "(createdUserId p \<noteq> userId \<longrightarrow>
            edit L now c userId pid s = (Inl Permission_denied, s) \<and>
            delete L userId pid s = (Inl Permission_denied, s)) \<and>
         (\<forall>d. createdUserId p = userId \<and> discussions s (discussionId p) = Some d \<and>
               userId \<notin> set (d_memberIds d) \<longrightarrow>
            edit L now c userId pid s = (Inl Permission_denied, s) \<and>
            delete L userId pid s = (Inl Permission_denied, s)) \<and>
         (\<forall>d t. createdUserId p = userId \<and> discussions s (discussionId p) = Some d \<and>
               userId \<in> set (d_memberIds d) \<and> teams s (teamId d) = Some t \<and>
               userId \<notin> set (t_memberIds t) \<longrightarrow>
            edit L now c userId pid s = (Inl Team_not_found, s) \<and>
            delete L userId pid s = (Inl Team_not_found, s)) \<and>
         kind_of Permission_denied = PermissionDenied \<and> kind_of Team_not_found = NotFound"
proof -
  note fetched = edit_fetched [OF assms(3,2,1)] delete_fetched [OF assms(2,1)]
  have 1: "edit L now c userId pid s = (Inl Permission_denied, s) \<and>
           delete L userId pid s = (Inl Permission_denied, s)"
    if "createdUserId p \<noteq> userId"
    using that assms(4,5) by (simp add: fetched checkPermission_not_author)
  have 2: "edit L now c userId pid s = (Inl Permission_denied, s) \<and>
           delete L userId pid s = (Inl Permission_denied, s)"
    if "createdUserId p = userId" "discussions s (discussionId p) = Some d"
       "userId \<notin> set (d_memberIds d)" for d
    using checkPermission_not_member [OF assms(4,5) that] by (simp add: fetched)
  have 3: "edit L now c userId pid s = (Inl Team_not_found, s) \<and>
           delete L userId pid s = (Inl Team_not_found, s)"
    if "createdUserId p = userId" "discussions s (discussionId p) = Some d"
       "userId \<in> set (d_memberIds d)" "teams s (teamId d) = Some t"
       "userId \<notin> set (t_memberIds t)" for d t
    using checkPermission_not_in_team [OF assms(4,5) that] by (simp add: fetched)
  from 1 2 3 show ?thesis by simp
qed

theorem edit_delete_refused_witness:
  "edit demo_libs 50 ''x'' ''bob'' alice_id demo_db = (Inl Permission_denied, demo_db) \<and>
   delete demo_libs ''bob'' alice_id demo_db = (Inl Permission_denied, demo_db) \<and>
   edit demo_libs 50 ''x'' ''alice'' other_id demo_db = (Inl Permission_denied, demo_db) \<and>
   delete demo_libs ''alice'' other_id demo_db = (Inl Permission_denied, demo_db) \<and>
   edit demo_libs 50 ''x'' ''alice'' alice_id demo_db = (Inl Team_not_found, demo_db) \<and>
   delete demo_libs ''alice'' alice_id demo_db = (Inl Team_not_found, demo_db)"
proof -
  have fa: "findById demo_libs alice_id demo_db = Inr (Some alice_post)"
    and fo: "findById demo_libs other_id demo_db = Inr (Some other_post)"
    by (simp_all add: findById_def demo_defs)
  have ia: "alice_id \<noteq> []" and ido: "other_id \<noteq> []"
    and da: "discussionId alice_post \<noteq> []" and dso: "discussionId other_post \<noteq> []"
    by (simp_all add: alice_post_def other_post_def alice_id_def other_id_def)
  have c: "''x'' \<noteq> []" and b: "''bob'' \<noteq> []" and a: "''alice'' \<noteq> []"
    by simp_all
  have "createdUserId alice_post \<noteq> ''bob''"
    by (simp add: alice_post_def)
  with edit_delete_refused [OF fa ia c b da, where now = 50]
  have 1: "edit demo_libs 50 ''x'' ''bob'' alice_id demo_db = (Inl Permission_denied, demo_db) \<and>
           delete demo_libs ''bob'' alice_id demo_db = (Inl Permission_denied, demo_db)"
    by blast
  have "createdUserId other_post = ''alice'' \<and>
        discussions demo_db (discussionId other_post) =
          Some \<lparr>teamId = ''t1'', d_memberIds = [''bob''], d_slug = ''random''\<rparr> \<and>
        ''alice'' \<notin> set (d_memberIds \<lparr>teamId = ''t1'', d_memberIds = [''bob''], d_slug = ''random''\<rparr>)"
    by (simp add: demo_defs)
  with edit_delete_refused [OF fo ido c a dso, where now = 50]
  have 2: "edit demo_libs 50 ''x'' ''alice'' other_id demo_db = (Inl Permission_denied, demo_db) \<and>
           delete demo_libs ''alice'' other_id demo_db = (Inl Permission_denied, demo_db)"
    by blast
  have "createdUserId alice_post = ''alice'' \<and>
        discussions demo_db (discussionId alice_post) =
          Some \<lparr>teamId = ''t1'', d_memberIds = [''alice'', ''bob'', ''carol''], d_slug = ''general''\<rparr> \<and>
        ''alice'' \<in> set (d_memberIds \<lparr>teamId = ''t1'', d_memberIds = [''alice'', ''bob'', ''carol''],
                                        d_slug = ''general''\<rparr>) \<and>
        teams demo_db (teamId \<lparr>teamId = ''t1'', d_memberIds = [''alice'', ''bob'', ''carol''],
                                d_slug = ''general''\<rparr>) =
          Some \<lparr>t_memberIds = [''bob''], t_slug = ''team''\<rparr> \<and>
        ''alice'' \<notin> set (t_memberIds \<lparr>t_memberIds = [''bob''], t_slug = ''team''\<rparr>)"
    by (simp add: demo_defs)
  with edit_delete_refused [OF fa ia c a da, where now = 50]
  have 3: "edit demo_libs 50 ''x'' ''alice'' alice_id demo_db = (Inl Team_not_found, demo_db) \<and>
           delete demo_libs ''alice'' alice_id demo_db = (Inl Team_not_found, demo_db)"
    by blast
  from 1 2 3 show ?thesis by simp
qed

text \<open>
  Alice wrote her post and is a member of its discussion \<open>d1\<close>, but not of the team
  \<open>t1\<close>: her \<open>edit\<close> is refused with \<open>Team not found\<close>, which is not
  \<open>Permission denied\<close>.
\<close>

theorem edit_not_in_team_counterexample:
  "createdUserId alice_post = ''alice'' \<and>
   map_option d_memberIds (discussions demo_db (discussionId alice_post)) =
     Some [''alice'', ''bob'', ''carol''] \<and>
   map_option t_memberIds (teams demo_db ''t1'') = Some [''bob''] \<and>
   edit demo_libs 50 ''x'' ''alice'' alice_id demo_db = (Inl Team_not_found, demo_db) \<and>
   delete demo_libs ''alice'' alice_id demo_db = (Inl Team_not_found, demo_db) \<and>
   kind_of Team_not_found = NotFound"
  by (simp add: edit_def delete_def findById_def checkPermission_def demo_defs)

end
